theory Spec2Isabelle
  imports Main "HOL-Library.Sublist"
begin

section \<open>Strings and error values\<close>

text \<open>
  A Go string is a sequence of bytes and \<open>len\<close> counts bytes, so a Go string is a
  \<^typ>\<open>string\<close> and \<open>len\<close> is \<^const>\<open>length\<close>. The messages of the service are
  Portuguese; their accented letters are written as the two bytes of their UTF-8 encoding.
\<close>

abbreviation a_acute :: string where "a_acute \<equiv> [CHR 0xC3, CHR 0xA1]"
abbreviation a_tilde :: string where "a_tilde \<equiv> [CHR 0xC3, CHR 0xA3]"
abbreviation e_acute :: string where "e_acute \<equiv> [CHR 0xC3, CHR 0xA9]"
abbreviation i_acute :: string where "i_acute \<equiv> [CHR 0xC3, CHR 0xAD]"
abbreviation o_acute :: string where "o_acute \<equiv> [CHR 0xC3, CHR 0xB3]"

text \<open>
  Modelled from the spec: the reasons for which the token library refuses a token
  (spec 4.2). The library is not part of the repository; the service only sees the error
  value it hands back.
\<close>

datatype token_failure =
    MalformedToken
  | SignatureMismatch
  | UnexpectedAlgorithm
  | Expired
  | NotYetValid

text \<open>
  Go error values. \<open>Errorf m\<close> is \<open>fmt.Errorf(m)\<close> with a constant message,
  \<open>Wrapf p e\<close> is \<open>fmt.Errorf(p + "%w", e)\<close>: its message is \<open>p\<close> followed by the
  message of \<open>e\<close>, and \<open>e\<close> stays reachable through \<open>errors.Unwrap\<close>. The other
  constructors are the error values that come from outside the repository: the sentinel
  \<open>pgx.ErrNoRows\<close>, an error of the storage driver or of a library (by its message), a
  refusal of the token library, and the token library's wrapping of an error returned by
  the key function. A nil error is \<open>None\<close> of \<open>error option\<close>, or the \<open>Inr\<close> side of a
  result.
\<close>

datatype error =
    Errorf string
  | Wrapf string error
  | ErrNoRows
  | External string
  | TokenError token_failure
  | KeyfuncError error

section \<open>External packages\<close>

text \<open>
  \<open>pgtype.UUID\<close> and \<open>pgtype.Timestamp\<close>: a value and its validity flag. The sixteen
  bytes of an identifier are read as one number; an instant is a number (\<open>time.Time\<close>),
  and so is a \<open>time.Duration\<close>.
\<close>

record pgtype_UUID =
  Bytes :: nat
  Valid :: bool

record pgtype_Timestamp =
  Time :: int
  Valid :: bool

text \<open>
  \<open>jwt.RegisteredClaims\<close> with the fields the repository sets or reads, and
  \<open>types.Claims\<close> (pkg/types/user.go), which embeds it.
\<close>

record RegisteredClaims =
  Subject :: string
  ExpiresAt :: "int option"
  NotBefore :: "int option"
  IssuedAt :: "int option"
  ID :: string

record Claims = RegisteredClaims +
  UserID :: string
  Username :: string
  Email :: string

text \<open>
  Modelled from the spec: the signing methods of the token library (spec 4.2), which are
  the HMAC family (by name, \<open>HS256\<close> and its siblings), the unsigned method \<open>none\<close>,
  and the asymmetric ones.
\<close>

datatype SigningMethod =
    SigningMethodHMAC string
  | SigningMethodNone
  | SigningMethodAsymmetric string

definition SigningMethodHS256 :: SigningMethod where
  "SigningMethodHS256 = SigningMethodHMAC ''HS256''"

text \<open>
  \<open>jwt.Token\<close>: the method the header's \<open>alg\<close> resolves to, the header's \<open>alg\<close> itself,
  the decoded claims, and the flag set by a completed verification.
\<close>

record 'c Token =
  Method :: SigningMethod
  alg :: string
  Claims :: 'c
  Valid :: bool

text \<open>
  What the code calls in packages that are not part of the repository, taken as
  parameters: \<open>bcrypt\<close> (hashing draws a random salt, so the digest is whatever the
  package returns), the token library's parser, verifier and signer, the conversions of
  \<open>uuid\<close> and \<open>pgtype\<close>, the layout \<open>time.RFC3339\<close>, the clock, and the identifiers
  that successive calls of \<open>uuid.New\<close> draw during one request.

  \<open>jwt_parse\<close> is the unverified parse of a token string into a claims type (segments,
  encodings, lookup of the method named by \<open>alg\<close>); \<open>jwt_verify token_string method key\<close>
  is the check of the signature with the token's method under the key, followed by the
  validation of the temporal claims at the current time; \<open>None\<close> means it passed.
\<close>

record packages =
  bcrypt_GenerateFromPassword :: "string \<Rightarrow> nat \<Rightarrow> error + string"
  bcrypt_CompareHashAndPassword :: "string \<Rightarrow> string \<Rightarrow> error option"
  jwt_parse_Claims :: "string \<Rightarrow> token_failure + Claims Token"
  jwt_parse_RegisteredClaims :: "string \<Rightarrow> token_failure + RegisteredClaims Token"
  jwt_verify :: "string \<Rightarrow> SigningMethod \<Rightarrow> string \<Rightarrow> token_failure option"
  jwt_SignedString_Claims :: "SigningMethod \<Rightarrow> Claims \<Rightarrow> string \<Rightarrow> error + string"
  jwt_SignedString_RegisteredClaims ::
    "SigningMethod \<Rightarrow> RegisteredClaims \<Rightarrow> string \<Rightarrow> error + string"
  uuid_String :: "nat \<Rightarrow> string"
  pgtype_UUID_Scan :: "string \<Rightarrow> error + pgtype_UUID"
  uuid_New :: "nat \<Rightarrow> string"
  time_Now :: int
  time_Format_RFC3339 :: "int \<Rightarrow> string"

text \<open>
  Modelled from the spec: \<open>jwt.ParseWithClaims\<close> of the token library, which is not part
  of the repository. Spec 4.2: the token is parsed, the caller's key function sees the
  parsed token and may refuse it, the signature is verified under the key it returns, an
  expired or not yet valid token is rejected, and on success the token is marked valid.
\<close>

definition ParseWithClaims ::
  "(string \<Rightarrow> token_failure + 'c Token) \<Rightarrow>
   (string \<Rightarrow> SigningMethod \<Rightarrow> string \<Rightarrow> token_failure option) \<Rightarrow>
   string \<Rightarrow> ('c Token \<Rightarrow> error + string) \<Rightarrow> error + 'c Token" where
  "ParseWithClaims parse verify tokenString keyFunc =
     (case parse tokenString of
        Inl f \<Rightarrow> Inl (TokenError f)
      | Inr token \<Rightarrow>
          (case keyFunc token of
             Inl err \<Rightarrow> Inl (KeyfuncError err)
           | Inr key \<Rightarrow>
               (case verify tokenString (Method token) key of
                  Some f \<Rightarrow> Inl (TokenError f)
                | None \<Rightarrow> Inr (token\<lparr>Token.Valid := True\<rparr>))))"

section \<open>Password hashing (pkg/utils/password.go)\<close>

definition HashPassword :: "packages \<Rightarrow> string \<Rightarrow> error + string" where
  "HashPassword x password =
     (case bcrypt_GenerateFromPassword x password 12 of
        Inl err \<Rightarrow> Inl (Wrapf ''falha ao gerar hash: '' err)
      | Inr bytes \<Rightarrow> Inr bytes)"

definition CheckPassword :: "packages \<Rightarrow> string \<Rightarrow> string \<Rightarrow> bool" where
  "CheckPassword x password hash \<longleftrightarrow> bcrypt_CompareHashAndPassword x hash password = None"

section \<open>Identifier conversion (pkg/utils)\<close>

definition UUIDToString :: "packages \<Rightarrow> pgtype_UUID \<Rightarrow> string" where
  "UUIDToString x u = (if \<not> pgtype_UUID.Valid u then [] else uuid_String x (Bytes u))"

section \<open>Token issuing and validation (pkg/utils/jwt.go)\<close>

text \<open>
  \<open>jti\<close> is the identifier that the call of \<open>uuid.New\<close> inside the function draws; the
  three reads of the clock are the one instant \<open>time_Now\<close>.
\<close>

definition GenerateAccessToken ::
  "packages \<Rightarrow> string \<Rightarrow> string \<Rightarrow> string \<Rightarrow> string \<Rightarrow> string \<Rightarrow> int \<Rightarrow> error + string" where
  "GenerateAccessToken x jti userID username email secret duration =
     jwt_SignedString_Claims x SigningMethodHS256
       \<lparr>Subject = [], ExpiresAt = Some (time_Now x + duration), NotBefore = Some (time_Now x),
        IssuedAt = Some (time_Now x), ID = jti,
        UserID = userID, Username = username, Email = email\<rparr>
       secret"

definition GenerateRefreshToken ::
  "packages \<Rightarrow> string \<Rightarrow> string \<Rightarrow> string \<Rightarrow> int \<Rightarrow> error + string" where
  "GenerateRefreshToken x jti userID secret duration =
     jwt_SignedString_RegisteredClaims x SigningMethodHS256
       \<lparr>Subject = userID, ExpiresAt = Some (time_Now x + duration), NotBefore = None,
        IssuedAt = Some (time_Now x), ID = jti\<rparr>
       secret"

text \<open>
  The key function of both validators: it hands out the secret only when the token's
  method is of the HMAC type, and otherwise fails with a message that prints the header's
  \<open>alg\<close>.
\<close>

definition keyFunc :: "string \<Rightarrow> 'c Token \<Rightarrow> error + string" where
  "keyFunc secret token =
     (case Method token of
        SigningMethodHMAC _ \<Rightarrow> Inr secret
      | _ \<Rightarrow> Inl (Errorf (''m'' @ e_acute @ ''todo de assinatura inesperado: '' @ alg token)))"

definition ValidateAccessToken :: "packages \<Rightarrow> string \<Rightarrow> string \<Rightarrow> error + Claims" where
  "ValidateAccessToken x tokenString secret =
     (case ParseWithClaims (jwt_parse_Claims x) (jwt_verify x) tokenString (keyFunc secret) of
        Inl err \<Rightarrow> Inl (Wrapf ''erro ao parsear token: '' err)
      | Inr token \<Rightarrow>
          if Token.Valid token then Inr (Claims token)
          else Inl (Errorf (''token inv'' @ a_acute @ ''lido'')))"

definition ValidateRefreshToken :: "packages \<Rightarrow> string \<Rightarrow> string \<Rightarrow> error + string" where
  "ValidateRefreshToken x tokenString secret =
     (case ParseWithClaims (jwt_parse_RegisteredClaims x) (jwt_verify x) tokenString
             (keyFunc secret) of
        Inl err \<Rightarrow> Inl (Wrapf ''erro ao parsear refresh token: '' err)
      | Inr token \<Rightarrow>
          if Token.Valid token then Inr (Subject (Claims token))
          else Inl (Errorf (''refresh token inv'' @ a_acute @ ''lido'')))"

section \<open>Input validation (internal/service/auth\_service.go)\<close>

record RegisterInput =
  Username :: string
  Email :: string
  Password :: string

record LoginInput =
  Email :: string
  Password :: string

text \<open>
  \<open>containsMiddle\<close>: the loop \<open>for i := 0; i <= len(s)-len(substr); i++\<close> with the slice
  \<open>s[i:i+len(substr)]\<close>. The bound is computed on Go's signed \<open>int\<close>, so it is negative
  when \<open>substr\<close> is the longer string and the body never runs.
\<close>

function containsMiddle_loop :: "string \<Rightarrow> string \<Rightarrow> nat \<Rightarrow> bool" where
  "containsMiddle_loop s substr i =
     (if int i \<le> int (length s) - int (length substr)
      then (if take (length substr) (drop i s) = substr then True
            else containsMiddle_loop s substr (i + 1))
      else False)"
  by pat_completeness auto
termination
  by (relation "measure (\<lambda>(s, substr, i). length s + 1 - i)") auto

declare containsMiddle_loop.simps [simp del]

definition containsMiddle :: "string \<Rightarrow> string \<Rightarrow> bool" where
  "containsMiddle s substr = containsMiddle_loop s substr 0"

text \<open>
  \<open>contains\<close>: the conjunction of the source, in its order. The slices \<open>s[0:len(substr)]\<close>
  and \<open>s[len(s)-len(substr):]\<close> are only reached when \<open>len(s) >= len(substr)\<close>.
\<close>

definition contains :: "string \<Rightarrow> string \<Rightarrow> bool" where
  "contains s substr \<longleftrightarrow>
     length s > 0 \<and> length substr > 0 \<and>
     length s \<ge> length substr \<and> s \<noteq> substr \<and>
     (take (length substr) s = substr \<or>
      drop (length s - length substr) s = substr \<or>
      (length s > length substr \<and> containsMiddle s substr))"

definition validateRegisterInput :: "RegisterInput \<Rightarrow> error option" where
  "validateRegisterInput input =
     (if RegisterInput.Username input = [] then
        Some (Errorf (''username '' @ e_acute @ '' obrigat'' @ o_acute @ ''rio''))
      else if length (RegisterInput.Username input) < 3 \<or> length (RegisterInput.Username input) > 50 then
        Some (Errorf ''username deve ter entre 3 e 50 caracteres'')
      else if RegisterInput.Email input = [] then
        Some (Errorf (''email '' @ e_acute @ '' obrigat'' @ o_acute @ ''rio''))
      else if \<not> contains (RegisterInput.Email input) ''@'' \<or>
              \<not> contains (RegisterInput.Email input) ''.'' then
        Some (Errorf (''email inv'' @ a_acute @ ''lido''))
      else if RegisterInput.Password input = [] then
        Some (Errorf (''senha '' @ e_acute @ '' obrigat'' @ o_acute @ ''ria''))
      else if length (RegisterInput.Password input) < 6 then
        Some (Errorf (''senha deve ter no m'' @ i_acute @ ''nimo 6 caracteres''))
      else None)"

section \<open>The repository interface\<close>

text \<open>
  The package \<open>repository\<close> (generated query code) is not among the sources. Its row and
  parameter types are the fields that the service reads and writes.
\<close>

record User =
  ID :: pgtype_UUID
  Username :: string
  Email :: string
  PasswordHash :: string
  CreatedAt :: pgtype_Timestamp

record RefreshSession =
  ID :: pgtype_UUID
  UserID :: pgtype_UUID
  Token :: string
  ExpiresAt :: pgtype_Timestamp
  CreatedAt :: pgtype_Timestamp

record CreateUserParams =
  Username :: string
  Email :: string
  PasswordHash :: string

record CreateRefreshTokenParams =
  UserID :: pgtype_UUID
  Token :: string
  ExpiresAt :: pgtype_Timestamp

text \<open>
  The methods of \<open>repository.Queries\<close> that the authentication service calls, as
  parameters. Each takes the state of the storage and returns its answer with the state
  after the call, so that a read that changed the storage would be seen. Nothing but
  these methods can touch a state of type \<open>'db\<close>.
\<close>

record 'db Queries =
  GetUserByEmail :: "'db \<Rightarrow> string \<Rightarrow> (error + User) \<times> 'db"
  GetUserByUsername :: "'db \<Rightarrow> string \<Rightarrow> (error + User) \<times> 'db"
  GetUserByID :: "'db \<Rightarrow> pgtype_UUID \<Rightarrow> (error + User) \<times> 'db"
  CreateUser :: "'db \<Rightarrow> CreateUserParams \<Rightarrow> (error + User) \<times> 'db"
  CreateRefreshToken :: "'db \<Rightarrow> CreateRefreshTokenParams \<Rightarrow> (error + RefreshSession) \<times> 'db"
  GetRefreshToken :: "'db \<Rightarrow> string \<Rightarrow> (error + RefreshSession) \<times> 'db"
  DeleteRefreshToken :: "'db \<Rightarrow> string \<Rightarrow> error option \<times> 'db"

section \<open>The authentication service (internal/service/auth\_service.go)\<close>

record JWTConfig =
  AccessSecret :: string
  RefreshSecret :: string
  AccessExpiration :: int
  RefreshExpiration :: int

record Config =
  JWT :: JWTConfig

record 'db AuthService =
  queries :: "'db Queries"
  cfg :: Config

definition NewAuthService :: "'db Queries \<Rightarrow> Config \<Rightarrow> 'db AuthService" where
  "NewAuthService q c = \<lparr>queries = q, cfg = c\<rparr>"

record TokenPair =
  AccessToken :: string
  RefreshToken :: string

record UserResponse =
  ID :: string
  Username :: string
  Email :: string
  CreatedAt :: string

record AuthResponse =
  User :: UserResponse
  Tokens :: TokenPair

record RefreshTokenInput =
  RefreshToken :: string

definition generateTokens ::
  "packages \<Rightarrow> 'db AuthService \<Rightarrow> pgtype_UUID \<Rightarrow> string \<Rightarrow> string \<Rightarrow> error + TokenPair" where
  "generateTokens x s userID username email =
     (case GenerateAccessToken x (uuid_New x 0) (UUIDToString x userID) username email
             (AccessSecret (JWT (cfg s))) (AccessExpiration (JWT (cfg s))) of
        Inl err \<Rightarrow> Inl err
      | Inr accessToken \<Rightarrow>
          (case GenerateRefreshToken x (uuid_New x 1) (UUIDToString x userID)
                  (RefreshSecret (JWT (cfg s))) (RefreshExpiration (JWT (cfg s))) of
             Inl err \<Rightarrow> Inl err
           | Inr refreshToken \<Rightarrow>
               Inr \<lparr>AccessToken = accessToken, TokenPair.RefreshToken = refreshToken\<rparr>))"

definition saveRefreshToken ::
  "packages \<Rightarrow> 'db AuthService \<Rightarrow> 'db \<Rightarrow> pgtype_UUID \<Rightarrow> string \<Rightarrow> error option \<times> 'db" where
  "saveRefreshToken x s db userID token =
     (let expiresAt = \<lparr>Time = time_Now x + RefreshExpiration (JWT (cfg s)),
                        pgtype_Timestamp.Valid = True\<rparr>
      in case CreateRefreshToken (queries s) db
                \<lparr>CreateRefreshTokenParams.UserID = userID,
                 CreateRefreshTokenParams.Token = token,
                 CreateRefreshTokenParams.ExpiresAt = expiresAt\<rparr> of
           (Inl err, db1) \<Rightarrow> (Some err, db1)
         | (Inr _, db1) \<Rightarrow> (None, db1))"

definition authResponse :: "packages \<Rightarrow> User \<Rightarrow> TokenPair \<Rightarrow> AuthResponse" where
  "authResponse x user tokens =
     \<lparr>User = \<lparr>UserResponse.ID = UUIDToString x (User.ID user),
               UserResponse.Username = User.Username user,
               UserResponse.Email = User.Email user,
               UserResponse.CreatedAt =
                 time_Format_RFC3339 x (Time (User.CreatedAt user))\<rparr>,
      Tokens = tokens\<rparr>"

definition Register ::
  "packages \<Rightarrow> 'db AuthService \<Rightarrow> 'db \<Rightarrow> RegisterInput \<Rightarrow> (error + AuthResponse) \<times> 'db" where
  "Register x s db input =
     (case validateRegisterInput input of
        Some err \<Rightarrow> (Inl err, db)
      | None \<Rightarrow>
     (case GetUserByEmail (queries s) db (RegisterInput.Email input) of
        (Inr _, db1) \<Rightarrow> (Inl (Errorf (''email j'' @ a_acute @ '' cadastrado'')), db1)
      | (Inl err, db1) \<Rightarrow>
     if err \<noteq> ErrNoRows then (Inl (Wrapf ''erro ao verificar email: '' err), db1)
     else
     (case GetUserByUsername (queries s) db1 (RegisterInput.Username input) of
        (Inr _, db2) \<Rightarrow> (Inl (Errorf (''username j'' @ a_acute @ '' cadastrado'')), db2)
      | (Inl err, db2) \<Rightarrow>
     if err \<noteq> ErrNoRows then (Inl (Wrapf ''erro ao verificar username: '' err), db2)
     else
     (case HashPassword x (RegisterInput.Password input) of
        Inl err \<Rightarrow> (Inl (Wrapf ''erro ao criar hash da senha: '' err), db2)
      | Inr passwordHash \<Rightarrow>
     (case CreateUser (queries s) db2
             \<lparr>CreateUserParams.Username = RegisterInput.Username input,
              CreateUserParams.Email = RegisterInput.Email input,
              CreateUserParams.PasswordHash = passwordHash\<rparr> of
        (Inl err, db3) \<Rightarrow> (Inl (Wrapf (''erro ao criar usu'' @ a_acute @ ''rio: '') err), db3)
      | (Inr user, db3) \<Rightarrow>
     (case generateTokens x s (User.ID user) (User.Username user) (User.Email user) of
        Inl err \<Rightarrow> (Inl (Wrapf ''erro ao gerar tokens: '' err), db3)
      | Inr tokens \<Rightarrow>
     (case saveRefreshToken x s db3 (User.ID user) (TokenPair.RefreshToken tokens) of
        (Some err, db4) \<Rightarrow> (Inl (Wrapf ''erro ao salvar refresh token: '' err), db4)
      | (None, db4) \<Rightarrow> (Inr (authResponse x user tokens), db4))))))))"

definition Login ::
  "packages \<Rightarrow> 'db AuthService \<Rightarrow> 'db \<Rightarrow> LoginInput \<Rightarrow> (error + AuthResponse) \<times> 'db" where
  "Login x s db input =
     (if LoginInput.Email input = [] \<or> LoginInput.Password input = [] then
        (Inl (Errorf (''email e senha s'' @ a_tilde @ ''o obrigat'' @ o_acute @ ''rios'')), db)
      else
     (case GetUserByEmail (queries s) db (LoginInput.Email input) of
        (Inl err, db1) \<Rightarrow>
          if err = ErrNoRows then (Inl (Errorf (''credenciais inv'' @ a_acute @ ''lidas'')), db1)
          else (Inl (Wrapf (''erro ao buscar usu'' @ a_acute @ ''rio: '') err), db1)
      | (Inr user, db1) \<Rightarrow>
     if \<not> CheckPassword x (LoginInput.Password input) (User.PasswordHash user) then
       (Inl (Errorf (''credenciais inv'' @ a_acute @ ''lidas'')), db1)
     else
     (case generateTokens x s (User.ID user) (User.Username user) (User.Email user) of
        Inl err \<Rightarrow> (Inl (Wrapf ''erro ao gerar tokens: '' err), db1)
      | Inr tokens \<Rightarrow>
     (case saveRefreshToken x s db1 (User.ID user) (TokenPair.RefreshToken tokens) of
        (Some err, db2) \<Rightarrow> (Inl (Wrapf ''erro ao salvar refresh token: '' err), db2)
      | (None, db2) \<Rightarrow> (Inr (authResponse x user tokens), db2)))))"

definition RefreshToken ::
  "packages \<Rightarrow> 'db AuthService \<Rightarrow> 'db \<Rightarrow> RefreshTokenInput \<Rightarrow> (error + TokenPair) \<times> 'db" where
  "RefreshToken x s db input =
     (if RefreshTokenInput.RefreshToken input = [] then
        (Inl (Errorf (''refresh token '' @ e_acute @ '' obrigat'' @ o_acute @ ''rio'')), db)
      else
     (case ValidateRefreshToken x (RefreshTokenInput.RefreshToken input)
             (RefreshSecret (JWT (cfg s))) of
        Inl err \<Rightarrow> (Inl (Wrapf (''refresh token inv'' @ a_acute @ ''lido: '') err), db)
      | Inr userID \<Rightarrow>
     (case GetRefreshToken (queries s) db (RefreshTokenInput.RefreshToken input) of
        (Inl err, db1) \<Rightarrow>
          if err = ErrNoRows then
            (Inl (Errorf (''refresh token inv'' @ a_acute @ ''lido ou expirado'')), db1)
          else (Inl (Wrapf ''erro ao buscar refresh token: '' err), db1)
      | (Inr tokenRecord, db1) \<Rightarrow>
     (case pgtype_UUID_Scan x userID of
        Inl err \<Rightarrow> (Inl (Wrapf (''userID inv'' @ a_acute @ ''lido: '') err), db1)
      | Inr userUUID \<Rightarrow>
     (case GetUserByID (queries s) db1 userUUID of
        (Inl err, db2) \<Rightarrow>
          (Inl (Wrapf (''usu'' @ a_acute @ ''rio n'' @ a_tilde @ ''o encontrado: '') err), db2)
      | (Inr user, db2) \<Rightarrow>
     (case GenerateAccessToken x (uuid_New x 0) (UUIDToString x (User.ID user))
             (User.Username user) (User.Email user)
             (AccessSecret (JWT (cfg s))) (AccessExpiration (JWT (cfg s))) of
        Inl err \<Rightarrow> (Inl (Wrapf ''erro ao gerar access token: '' err), db2)
      | Inr accessToken \<Rightarrow>
          (Inr \<lparr>AccessToken = accessToken,
                TokenPair.RefreshToken = RefreshSession.Token tokenRecord\<rparr>, db2)))))))"

definition Logout :: "'db AuthService \<Rightarrow> 'db \<Rightarrow> string \<Rightarrow> error option \<times> 'db" where
  "Logout s db refreshToken =
     (if refreshToken = [] then
        (Some (Errorf (''refresh token '' @ e_acute @ '' obrigat'' @ o_acute @ ''rio'')), db)
      else
     (case DeleteRefreshToken (queries s) db refreshToken of
        (Some err, db1) \<Rightarrow> (Some (Wrapf ''erro ao revogar token: '' err), db1)
      | (None, db1) \<Rightarrow> (None, db1)))"

section \<open>The storage behind the repository\<close>

text \<open>
  The queries for accounts and refresh sessions are not among the sources, so the
  storage is modelled from the spec (3, 4.3 and 6): a table of accounts, a table of refresh
  sessions, whether the storage answers at all, and what it draws for a new row (the
  next identifier and its clock).
\<close>

record database =
  users :: "User list"
  sessions :: "RefreshSession list"
  available :: bool
  serial :: nat
  clock :: int

text \<open>
  Modelled from the spec: the \<open>PersistenceError\<close> of a storage failure (spec 4.3 and 7),
  an error of the driver that is not \<open>pgx.ErrNoRows\<close>.
\<close>

definition PersistenceError :: error where
  "PersistenceError = External ''storage failure''"

text \<open>
  Modelled from the spec: the error with which the storage refuses a row that breaks a
  uniqueness constraint (spec 4.4).
\<close>

definition UniqueViolation :: error where
  "UniqueViolation = External ''duplicate key value violates unique constraint''"

text \<open>
  Modelled from the spec: the unique identifier and the creation timestamp of a new row
  (spec 3).
\<close>

definition new_id :: "database \<Rightarrow> pgtype_UUID" where
  "new_id db = \<lparr>Bytes = serial db, pgtype_UUID.Valid = True\<rparr>"

definition new_timestamp :: "database \<Rightarrow> pgtype_Timestamp" where
  "new_timestamp db = \<lparr>Time = clock db, pgtype_Timestamp.Valid = True\<rparr>"

text \<open>
  Modelled from the spec: \<open>getAccountByEmail\<close> of the account repository (spec 6), which
  returns a row or a distinguishable "not found"; the service recognises "not found" as
  \<open>pgx.ErrNoRows\<close>.
\<close>

definition getAccountByEmail :: "database \<Rightarrow> string \<Rightarrow> (error + User) \<times> database" where
  "getAccountByEmail db email =
     (if \<not> available db then (Inl PersistenceError, db)
      else case find (\<lambda>u. User.Email u = email) (users db) of
             None \<Rightarrow> (Inl ErrNoRows, db)
           | Some u \<Rightarrow> (Inr u, db))"

text \<open>
  Modelled from the spec: \<open>getAccountByUsername\<close> of the account repository (spec 6).
\<close>

definition getAccountByUsername :: "database \<Rightarrow> string \<Rightarrow> (error + User) \<times> database" where
  "getAccountByUsername db username =
     (if \<not> available db then (Inl PersistenceError, db)
      else case find (\<lambda>u. User.Username u = username) (users db) of
             None \<Rightarrow> (Inl ErrNoRows, db)
           | Some u \<Rightarrow> (Inr u, db))"

text \<open>
  Modelled from the spec: \<open>getAccountById\<close> of the account repository (spec 6).
\<close>

definition getAccountById :: "database \<Rightarrow> pgtype_UUID \<Rightarrow> (error + User) \<times> database" where
  "getAccountById db uid =
     (if \<not> available db then (Inl PersistenceError, db)
      else case find (\<lambda>u. User.ID u = uid) (users db) of
             None \<Rightarrow> (Inl ErrNoRows, db)
           | Some u \<Rightarrow> (Inr u, db))"

text \<open>
  Modelled from the spec: \<open>createAccount\<close> of the account repository (spec 3 and 4.4):
  usernames and emails are unique across accounts and the storage enforces it, refusing
  the insert of a duplicate; a new account gets a fresh identifier and the time of its
  creation.
\<close>

definition createAccount :: "database \<Rightarrow> CreateUserParams \<Rightarrow> (error + User) \<times> database" where
  "createAccount db arg =
     (if \<not> available db then (Inl PersistenceError, db)
      else if find (\<lambda>u. User.Username u = CreateUserParams.Username arg \<or>
                         User.Email u = CreateUserParams.Email arg) (users db) \<noteq> None
      then (Inl UniqueViolation, db)
      else
        let u = \<lparr>User.ID = new_id db,
                 User.Username = CreateUserParams.Username arg,
                 User.Email = CreateUserParams.Email arg,
                 User.PasswordHash = CreateUserParams.PasswordHash arg,
                 User.CreatedAt = new_timestamp db\<rparr>
        in (Inr u, db\<lparr>users := users db @ [u], serial := Suc (serial db)\<rparr>))"

text \<open>
  Modelled from the spec: \<open>put\<close> of the refresh-session repository (spec 4.3): inserts a
  new row, fails only on a storage failure, and assumes no uniqueness of the token.
\<close>

definition put :: "database \<Rightarrow> CreateRefreshTokenParams \<Rightarrow> (error + RefreshSession) \<times> database" where
  "put db arg =
     (if \<not> available db then (Inl PersistenceError, db)
      else
        let r = \<lparr>RefreshSession.ID = new_id db,
                 RefreshSession.UserID = CreateRefreshTokenParams.UserID arg,
                 RefreshSession.Token = CreateRefreshTokenParams.Token arg,
                 RefreshSession.ExpiresAt = CreateRefreshTokenParams.ExpiresAt arg,
                 RefreshSession.CreatedAt = new_timestamp db\<rparr>
        in (Inr r, db\<lparr>sessions := sessions db @ [r], serial := Suc (serial db)\<rparr>))"

text \<open>
  Modelled from the spec: \<open>getByToken\<close> of the refresh-session repository (spec 4.3): the
  row whose token is exactly the given string, or "not found".
\<close>

definition getByToken :: "database \<Rightarrow> string \<Rightarrow> (error + RefreshSession) \<times> database" where
  "getByToken db token =
     (if \<not> available db then (Inl PersistenceError, db)
      else case find (\<lambda>r. RefreshSession.Token r = token) (sessions db) of
             None \<Rightarrow> (Inl ErrNoRows, db)
           | Some r \<Rightarrow> (Inr r, db))"

text \<open>
  Modelled from the spec: \<open>deleteByToken\<close> of the refresh-session repository (spec 4.3),
  "ok | NotFound": it makes the token absent, removing every row that carries it, and
  signals distinctly whether there was none.
\<close>

datatype delete_outcome = Deleted | NotFound

definition deleteByToken :: "database \<Rightarrow> string \<Rightarrow> (error + delete_outcome) \<times> database" where
  "deleteByToken db token =
     (if \<not> available db then (Inl PersistenceError, db)
      else case find (\<lambda>r. RefreshSession.Token r = token) (sessions db) of
             None \<Rightarrow> (Inr NotFound, db)
           | Some _ \<Rightarrow>
               (Inr Deleted,
                db\<lparr>sessions := filter (\<lambda>r. RefreshSession.Token r \<noteq> token) (sessions db)\<rparr>))"

text \<open>
  Modelled from the spec: the method \<open>DeleteRefreshToken\<close> of \<open>repository.Queries\<close>,
  which hands the service nothing but an error value. Spec 4.3 gives the policy for
  the "not found" outcome: logging out a session that is already invalid is a success,
  not an error. The method is a statement that returns no row, like the \<open>:exec\<close>
  queries under internal/database/queries, so a delete that matches no row reports no
  error; only a storage failure does.
\<close>

definition deleteRefreshToken :: "database \<Rightarrow> string \<Rightarrow> error option \<times> database" where
  "deleteRefreshToken db token =
     (case deleteByToken db token of
        (Inl err, db1) \<Rightarrow> (Some err, db1)
      | (Inr _, db1) \<Rightarrow> (None, db1))"

text \<open>
  Modelled from the spec: the repository \<open>repository.Queries\<close> over this storage, each
  method of the service's interface bound to the operation of the spec that it stands for.
\<close>

definition store :: "database Queries" where
  "store =
     \<lparr>GetUserByEmail = getAccountByEmail,
      GetUserByUsername = getAccountByUsername,
      GetUserByID = getAccountById,
      CreateUser = createAccount,
      CreateRefreshToken = put,
      GetRefreshToken = getByToken,
      DeleteRefreshToken = deleteRefreshToken\<rparr>"

section \<open>The properties in the spec's words\<close>

text \<open>
  The characters of a string in UTF-8: every byte starts a character except the
  continuation bytes, whose two leading bits are \<open>10\<close>. The letter a-acute is two bytes
  and one character.
\<close>

definition is_continuation :: "char \<Rightarrow> bool" where
  "is_continuation c \<longleftrightarrow> digit7 c \<and> \<not> digit6 c"

definition characters :: "string \<Rightarrow> nat" where
  "characters s = length (filter (\<lambda>c. \<not> is_continuation c) s)"

text \<open>
  The shape rules of Register as the spec states them (4.4): a username of 3 to 50
  characters, an email with an \<open>@\<close> and a dot, a password of at least 6 characters.
\<close>

definition malformed :: "RegisterInput \<Rightarrow> bool" where
  "malformed input \<longleftrightarrow>
     RegisterInput.Username input = [] \<or>
     characters (RegisterInput.Username input) < 3 \<or>
     characters (RegisterInput.Username input) > 50 \<or>
     CHR ''@'' \<notin> set (RegisterInput.Email input) \<or>
     CHR ''.'' \<notin> set (RegisterInput.Email input) \<or>
     RegisterInput.Password input = [] \<or>
     characters (RegisterInput.Password input) < 6"

text \<open>
  The same rules with the lengths that Go's \<open>len\<close> measures, which are numbers of
  bytes.
\<close>

definition malformed_bytes :: "RegisterInput \<Rightarrow> bool" where
  "malformed_bytes input \<longleftrightarrow>
     RegisterInput.Username input = [] \<or>
     length (RegisterInput.Username input) < 3 \<or>
     length (RegisterInput.Username input) > 50 \<or>
     CHR ''@'' \<notin> set (RegisterInput.Email input) \<or>
     CHR ''.'' \<notin> set (RegisterInput.Email input) \<or>
     RegisterInput.Password input = [] \<or>
     length (RegisterInput.Password input) < 6"

text \<open>The six errors with which \<open>validateRegisterInput\<close> refuses an input.\<close>

definition validation_errors :: "error list" where
  "validation_errors =
     [Errorf (''username '' @ e_acute @ '' obrigat'' @ o_acute @ ''rio''),
      Errorf ''username deve ter entre 3 e 50 caracteres'',
      Errorf (''email '' @ e_acute @ '' obrigat'' @ o_acute @ ''rio''),
      Errorf (''email inv'' @ a_acute @ ''lido''),
      Errorf (''senha '' @ e_acute @ '' obrigat'' @ o_acute @ ''ria''),
      Errorf (''senha deve ter no m'' @ i_acute @ ''nimo 6 caracteres'')]"

text \<open>The two errors of the existence checks of Register: the conflict errors.\<close>

definition conflict_errors :: "error list" where
  "conflict_errors =
     [Errorf (''email j'' @ a_acute @ '' cadastrado''),
      Errorf (''username j'' @ a_acute @ '' cadastrado'')]"

text \<open>The one error of Login for an unknown account and for a wrong password.\<close>

definition invalid_credentials :: error where
  "invalid_credentials = Errorf (''credenciais inv'' @ a_acute @ ''lidas'')"

text \<open>The error of RefreshToken for a token that the store does not hold.\<close>

definition revoked :: error where
  "revoked = Errorf (''refresh token inv'' @ a_acute @ ''lido ou expirado'')"

text \<open>The HMAC family among the signing methods.\<close>

fun is_HMAC :: "SigningMethod \<Rightarrow> bool" where
  "is_HMAC (SigningMethodHMAC name) = True"
| "is_HMAC SigningMethodNone = False"
| "is_HMAC (SigningMethodAsymmetric name) = False"

section \<open>An example deployment\<close>

text \<open>
  Concrete stand-ins for the external packages, on which the service can be run: a
  hasher that prefixes the password, a token library that knows four token strings (an
  access token and a refresh token of alice, an expired refresh token, and a token whose
  header names the method \<open>none\<close>, which its verifier would let pass), and fixed answers
  for identifiers and time.
\<close>

definition demo_hash :: "string \<Rightarrow> string" where
  "demo_hash password = ''$2a$12$'' @ password"

definition demo_packages :: packages where
  "demo_packages =
     \<lparr>bcrypt_GenerateFromPassword = (\<lambda>password cost. Inr (demo_hash password)),
      bcrypt_CompareHashAndPassword =
        (\<lambda>hash password.
           if hash = demo_hash password then None
           else Some (External ''hashedPassword is not the hash of the given password'')),
      jwt_parse_Claims =
        (\<lambda>t. if t = ''access.alice-id'' then
                Inr \<lparr>Method = SigningMethodHS256, alg = ''HS256'',
                     Claims = \<lparr>Subject = [], RegisteredClaims.ExpiresAt = Some 3700,
                               NotBefore = Some 100, IssuedAt = Some 100,
                               RegisteredClaims.ID = ''jti'',
                               Claims.UserID = ''alice-id'', Claims.Username = ''alice'',
                               Claims.Email = ''alice@example.com''\<rparr>,
                     Token.Valid = False\<rparr>
              else if t = ''unsigned'' then
                Inr \<lparr>Method = SigningMethodNone, alg = ''none'',
                     Claims = \<lparr>Subject = [], RegisteredClaims.ExpiresAt = None,
                               NotBefore = None, IssuedAt = None, RegisteredClaims.ID = [],
                               Claims.UserID = ''alice-id'', Claims.Username = ''alice'',
                               Claims.Email = ''alice@example.com''\<rparr>,
                     Token.Valid = False\<rparr>
              else Inl MalformedToken),
      jwt_parse_RegisteredClaims =
        (\<lambda>t. if t = ''refresh.alice-id'' \<or> t = ''refresh.expired'' then
                Inr \<lparr>Method = SigningMethodHS256, alg = ''HS256'',
                     Claims = \<lparr>Subject = ''alice-id'', RegisteredClaims.ExpiresAt = Some 604900,
                               NotBefore = None, IssuedAt = Some 100,
                               RegisteredClaims.ID = ''jti''\<rparr>,
                     Token.Valid = False\<rparr>
              else if t = ''unsigned'' then
                Inr \<lparr>Method = SigningMethodNone, alg = ''none'',
                     Claims = \<lparr>Subject = ''alice-id'', RegisteredClaims.ExpiresAt = None,
                               NotBefore = None, IssuedAt = None, RegisteredClaims.ID = []\<rparr>,
                     Token.Valid = False\<rparr>
              else Inl MalformedToken),
      jwt_verify = (\<lambda>t m key. if t = ''refresh.expired'' then Some Expired else None),
      jwt_SignedString_Claims = (\<lambda>m c key. Inr (''access.'' @ Claims.UserID c)),
      jwt_SignedString_RegisteredClaims = (\<lambda>m c key. Inr (''refresh.'' @ Subject c)),
      uuid_String = (\<lambda>n. if n = 1 then ''alice-id'' else ''other-id''),
      pgtype_UUID_Scan =
        (\<lambda>s. if s = ''alice-id'' then Inr \<lparr>Bytes = 1, pgtype_UUID.Valid = True\<rparr>
              else Inl (External ''cannot scan'')),
      uuid_New = (\<lambda>n. ''jti''),
      time_Now = 100,
      time_Format_RFC3339 = (\<lambda>t. ''1970-01-01T00:00:00Z'')\<rparr>"

definition demo_service :: "database AuthService" where
  "demo_service =
     NewAuthService store
       \<lparr>JWT = \<lparr>AccessSecret = ''access-secret'', RefreshSecret = ''refresh-secret'',
               AccessExpiration = 3600, RefreshExpiration = 604800\<rparr>\<rparr>"

definition alice :: User where
  "alice =
     \<lparr>User.ID = \<lparr>Bytes = 1, pgtype_UUID.Valid = True\<rparr>,
      User.Username = ''alice'', User.Email = ''alice@example.com'',
      User.PasswordHash = demo_hash ''secret123'',
      User.CreatedAt = \<lparr>Time = 0, pgtype_Timestamp.Valid = True\<rparr>\<rparr>"

definition alice_session :: RefreshSession where
  "alice_session =
     \<lparr>RefreshSession.ID = \<lparr>Bytes = 2, pgtype_UUID.Valid = True\<rparr>,
      RefreshSession.UserID = \<lparr>Bytes = 1, pgtype_UUID.Valid = True\<rparr>,
      RefreshSession.Token = ''refresh.alice-id'',
      RefreshSession.ExpiresAt = \<lparr>Time = 604900, pgtype_Timestamp.Valid = True\<rparr>,
      RefreshSession.CreatedAt = \<lparr>Time = 100, pgtype_Timestamp.Valid = True\<rparr>\<rparr>"

text \<open>A storage that holds alice and her one session, and an empty one.\<close>

definition demo_db :: database where
  "demo_db =
     \<lparr>users = [alice], sessions = [alice_session], available = True, serial = 3, clock = 100\<rparr>"

definition empty_db :: database where
  "empty_db = \<lparr>users = [], sessions = [], available = True, serial = 1, clock = 100\<rparr>"

text \<open>A repository, over any state, in which every lookup of an account finds one.\<close>

definition occupied :: "'db Queries" where
  "occupied =
     \<lparr>GetUserByEmail = (\<lambda>db email. (Inr alice, db)),
      GetUserByUsername = (\<lambda>db username. (Inr alice, db)),
      GetUserByID = (\<lambda>db uid. (Inr alice, db)),
      CreateUser = (\<lambda>db arg. (Inl UniqueViolation, db)),
      CreateRefreshToken = (\<lambda>db arg. (Inl PersistenceError, db)),
      GetRefreshToken = (\<lambda>db token. (Inl ErrNoRows, db)),
      DeleteRefreshToken = (\<lambda>db token. (Some ErrNoRows, db))\<rparr>"

text \<open>
  The race of spec 4.4: another registration of the username \<open>alice\<close> commits right
  after this request has looked the username up, and before it inserts.
\<close>

definition concurrent_registration :: "database \<Rightarrow> database" where
  "concurrent_registration db =
     snd (createAccount db
            \<lparr>CreateUserParams.Username = ''alice'',
             CreateUserParams.Email = ''alice@example.org'',
             CreateUserParams.PasswordHash = demo_hash ''other''\<rparr>)"

definition racing_store :: "database Queries" where
  "racing_store =
     store\<lparr>GetUserByUsername :=
             (\<lambda>db username.
                (fst (getAccountByUsername db username), concurrent_registration db))\<rparr>"

definition racing_service :: "database AuthService" where
  "racing_service = NewAuthService racing_store (cfg demo_service)"

text \<open>Inputs of the examples.\<close>

definition short_name :: RegisterInput where
  "short_name =
     \<lparr>RegisterInput.Username = ''al'', RegisterInput.Email = ''al@example.com'',
      RegisterInput.Password = ''secret123''\<rparr>"

definition alice_again :: RegisterInput where
  "alice_again =
     \<lparr>RegisterInput.Username = ''alice'', RegisterInput.Email = ''alice2@example.com'',
      RegisterInput.Password = ''secret123''\<rparr>"

text \<open>
  A username of two letters, the first accented (2 characters, 3 bytes), and one of 26
  accented letters (26 characters, 52 bytes).
\<close>

definition two_letters :: RegisterInput where
  "two_letters =
     \<lparr>RegisterInput.Username = a_acute @ ''b'', RegisterInput.Email = ''ab@example.com'',
      RegisterInput.Password = ''secret123''\<rparr>"

definition accented_name :: RegisterInput where
  "accented_name =
     \<lparr>RegisterInput.Username = concat (replicate 26 a_acute),
      RegisterInput.Email = ''aa@example.com'', RegisterInput.Password = ''secret123''\<rparr>"



definition nobody_login :: LoginInput where
  "nobody_login =
     \<lparr>LoginInput.Email = ''nobody@example.com'', LoginInput.Password = ''secret123''\<rparr>"

definition wrong_login :: LoginInput where
  "wrong_login = \<lparr>LoginInput.Email = ''alice@example.com'', LoginInput.Password = ''wrong''\<rparr>"

definition empty_password_login :: LoginInput where
  "empty_password_login =
     \<lparr>LoginInput.Email = ''nobody@example.com'', LoginInput.Password = []\<rparr>"

definition alice_refresh :: RefreshTokenInput where
  "alice_refresh = \<lparr>RefreshTokenInput.RefreshToken = ''refresh.alice-id''\<rparr>"

definition expired_refresh :: RefreshTokenInput where
  "expired_refresh = \<lparr>RefreshTokenInput.RefreshToken = ''refresh.expired''\<rparr>"

definition garbage_refresh :: RefreshTokenInput where
  "garbage_refresh = \<lparr>RefreshTokenInput.RefreshToken = ''garbage''\<rparr>"

section \<open>Substring search\<close>

lemma containsMiddle_loop_iff:
  "containsMiddle_loop s substr i \<longleftrightarrow>
     (\<exists>j. i \<le> j \<and> j + length substr \<le> length s \<and> take (length substr) (drop j s) = substr)"
proof (induction s substr i rule: containsMiddle_loop.induct)
  case (1 s substr i)
  show ?case
  proof (cases "int i \<le> int (length s) - int (length substr)")
    case False
    then show ?thesis
      by (subst containsMiddle_loop.simps) auto
  next
    case inb: True
    show ?thesis
    proof (cases "take (length substr) (drop i s) = substr")
      case True
      with inb show ?thesis
        by (subst containsMiddle_loop.simps) (auto intro!: exI [of _ i])
    next
      case False
      have "containsMiddle_loop s substr i = containsMiddle_loop s substr (i + 1)"
        using inb False by (subst containsMiddle_loop.simps) simp
      also have "\<dots> \<longleftrightarrow> (\<exists>j. i + 1 \<le> j \<and> j + length substr \<le> length s \<and>
          take (length substr) (drop j s) = substr)"
        using "1.IH" [OF inb False] .
      also have "\<dots> \<longleftrightarrow> (\<exists>j. i \<le> j \<and> j + length substr \<le> length s \<and>
          take (length substr) (drop j s) = substr)"
      proof
        assume "\<exists>j. i + 1 \<le> j \<and> j + length substr \<le> length s \<and>
          take (length substr) (drop j s) = substr"
        then obtain j where "i + 1 \<le> j" "j + length substr \<le> length s"
          "take (length substr) (drop j s) = substr" by blast
        then show "\<exists>j. i \<le> j \<and> j + length substr \<le> length s \<and>
          take (length substr) (drop j s) = substr"
          by (intro exI [of _ j]) simp
      next
        assume "\<exists>j. i \<le> j \<and> j + length substr \<le> length s \<and>
          take (length substr) (drop j s) = substr"
        then obtain j where j: "i \<le> j" "j + length substr \<le> length s"
          "take (length substr) (drop j s) = substr" by blast
        with False have "j \<noteq> i" by auto
        with j show "\<exists>j. i + 1 \<le> j \<and> j + length substr \<le> length s \<and>
          take (length substr) (drop j s) = substr"
          by (intro exI [of _ j]) simp
      qed
      finally show ?thesis .
    qed
  qed
qed

lemma sublist_iff_slice:
  "sublist xs ys \<longleftrightarrow> (\<exists>j. j + length xs \<le> length ys \<and> take (length xs) (drop j ys) = xs)"
proof
  assume "sublist xs ys"
  then obtain ps ss where "ys = ps @ xs @ ss" by (auto simp: sublist_def)
  then show "\<exists>j. j + length xs \<le> length ys \<and> take (length xs) (drop j ys) = xs"
    by (intro exI [of _ "length ps"]) simp
next
  assume "\<exists>j. j + length xs \<le> length ys \<and> take (length xs) (drop j ys) = xs"
  then obtain j where j: "j + length xs \<le> length ys" "take (length xs) (drop j ys) = xs"
    by blast
  have "ys = take j ys @ take (length xs) (drop j ys) @ drop (length xs) (drop j ys)"
    by (simp only: append_take_drop_id)
  with j show "sublist xs ys"
    unfolding sublist_def by metis
qed

lemma containsMiddle_iff: "containsMiddle s substr \<longleftrightarrow> sublist substr s"
  by (simp add: containsMiddle_def containsMiddle_loop_iff sublist_iff_slice)

lemma take_eq_imp_sublist:
  "length xs \<le> length ys \<Longrightarrow> take (length xs) ys = xs \<Longrightarrow> sublist xs ys"
  by (metis append_take_drop_id sublist_append_rightI)

lemma drop_eq_imp_sublist:
  "drop (length ys - length xs) ys = xs \<Longrightarrow> sublist xs ys"
  by (metis append_take_drop_id sublist_append_leftI)

lemma contains_iff:
  "contains s substr \<longleftrightarrow> substr \<noteq> [] \<and> s \<noteq> substr \<and> sublist substr s"
proof
  assume c: "contains s substr"
  then have "sublist substr s"
    unfolding contains_def
    using take_eq_imp_sublist drop_eq_imp_sublist containsMiddle_iff by blast
  with c show "substr \<noteq> [] \<and> s \<noteq> substr \<and> sublist substr s"
    by (auto simp: contains_def)
next
  assume h: "substr \<noteq> [] \<and> s \<noteq> substr \<and> sublist substr s"
  then obtain ps ss where s: "s = ps @ substr @ ss"
    by (auto simp: sublist_def)
  with h have "ps \<noteq> [] \<or> ss \<noteq> []"
    by auto
  with s have "length substr < length s"
    by auto
  with h show "contains s substr"
    by (auto simp: contains_def containsMiddle_iff)
qed

lemma contains_char_iff: "contains s [c] \<longleftrightarrow> s \<noteq> [c] \<and> c \<in> set s"
proof -
  have "sublist [c] s \<longleftrightarrow> c \<in> set s"
    by (auto simp: sublist_def in_set_conv_decomp)
  then show ?thesis
    by (simp add: contains_iff)
qed

section \<open>Shape validation of Register\<close>

lemma email_shape:
  "contains email ''@'' \<and> contains email ''.'' \<longleftrightarrow>
     CHR ''@'' \<in> set email \<and> CHR ''.'' \<in> set email"
  by (auto simp: contains_char_iff)

lemma validate_malformed:
  "malformed_bytes input \<Longrightarrow>
     \<exists>err \<in> set validation_errors. validateRegisterInput input = Some err"
  using email_shape [of "RegisterInput.Email input"]
  by (auto simp: malformed_bytes_def validateRegisterInput_def validation_errors_def)

lemma validate_wellformed:
  "\<not> malformed_bytes input \<Longrightarrow> validateRegisterInput input = None"
  using email_shape [of "RegisterInput.Email input"]
  by (auto simp: malformed_bytes_def validateRegisterInput_def)

text \<open>
  With lengths in bytes the validation is exact. Register answers with a validation
  error and touches the storage neither for a read nor for a write exactly when the
  input breaks a shape rule measured in bytes; an input that meets all of them passes
  validation. "Touches the storage neither for a read nor for a write" is: whatever the
  repository behind the service does, even one whose lookups change the state, the
  answer is the same error and the state comes back as it went in, so no method of the
  repository was called. An input that passes does reach the repository: with the
  repository \<open>occupied\<close> the answer is a conflict error, not a validation error.
\<close>

lemma Register_validation:
  "(malformed_bytes input \<longleftrightarrow>
      (\<exists>err \<in> set validation_errors.
         \<forall>(s :: 'db AuthService) db. Register x s db input = (Inl err, db))) \<and>
   (validateRegisterInput input = None \<longleftrightarrow> \<not> malformed_bytes input)"
proof (intro conjI iffI)
  assume "malformed_bytes input"
  then obtain err where "err \<in> set validation_errors" "validateRegisterInput input = Some err"
    using validate_malformed by blast
  then show "\<exists>err \<in> set validation_errors.
      \<forall>(s :: 'db AuthService) db. Register x s db input = (Inl err, db)"
    by (auto simp: Register_def)
next
  assume "\<exists>err \<in> set validation_errors.
      \<forall>(s :: 'db AuthService) db. Register x s db input = (Inl err, db)"
  then obtain err where err: "err \<in> set validation_errors"
    and all: "\<And>(s :: 'db AuthService) db. Register x s db input = (Inl err, db)"
    by blast
  show "malformed_bytes input"
  proof (rule ccontr)
    assume "\<not> malformed_bytes input"
    then have ok: "validateRegisterInput input = None"
      by (rule validate_wellformed)
    {
      fix db :: 'db and c :: Config
      have "Register x (NewAuthService occupied c) db input =
          (Inl (Errorf (''email j'' @ a_acute @ '' cadastrado'')), db)"
        using ok by (simp add: Register_def occupied_def NewAuthService_def)
      with all have "err = Errorf (''email j'' @ a_acute @ '' cadastrado'')"
        by simp
      with err have False
        by (simp add: validation_errors_def)
    }
    then show False .
  qed
next
  assume "validateRegisterInput input = None"
  then show "\<not> malformed_bytes input"
    using validate_malformed by fastforce
next
  assume "\<not> malformed_bytes input"
  then show "validateRegisterInput input = None"
    by (rule validate_wellformed)
qed

lemma Register_validation_example:
  "malformed_bytes short_name \<and>
   (\<exists>err \<in> set validation_errors.
      \<forall>(s :: database AuthService) db.
        Register demo_packages s db short_name = (Inl err, db)) \<and>
   \<not> malformed_bytes alice_again \<and> validateRegisterInput alice_again = None"
proof -
  have "malformed_bytes short_name"
    by (simp add: malformed_bytes_def short_name_def)
  moreover have "\<not> malformed_bytes alice_again"
    by (simp add: malformed_bytes_def alice_again_def)
  ultimately show ?thesis
    using Register_validation [of short_name demo_packages, where 'db = database]
      Register_validation [of alice_again demo_packages, where 'db = database]
    by simp
qed

lemma accented_name_lengths:
  "length (concat (replicate 26 a_acute)) = 52"
  "characters (concat (replicate 26 a_acute)) = 26"
  by (simp_all add: characters_def is_continuation_def filter_concat length_concat
      sum_list_replicate o_def)

text \<open>
  C5. The code measures the username and the password in bytes, where the claim, and
  the messages of \<open>validateRegisterInput\<close> themselves (\<open>caracteres\<close>), measure them in
  characters. A username of two characters of which one is accented is malformed for
  the claim and passes validation; a username of 26 accented letters is well-formed for
  the claim and is refused as not being between 3 and 50 characters long.
\<close>

theorem validateRegisterInput_counts_bytes:
  "characters (RegisterInput.Username two_letters) = 2 \<and>
   malformed two_letters \<and>
   validateRegisterInput two_letters = None \<and>
   characters (RegisterInput.Username accented_name) = 26 \<and>
   \<not> malformed accented_name \<and>
   validateRegisterInput accented_name =
     Some (Errorf ''username deve ter entre 3 e 50 caracteres'')"
  using accented_name_lengths
  by (simp add: two_letters_def accented_name_def malformed_def characters_def
      is_continuation_def validateRegisterInput_def contains_char_iff)

text \<open>
  So Register takes the two-character username to the repository, here to the conflict
  error of a repository in which every lookup finds an account.
\<close>

theorem validateRegisterInput_counts_bytes_witness:
  "malformed two_letters \<and>
   Register demo_packages (NewAuthService occupied (cfg demo_service)) demo_db two_letters =
     (Inl (Errorf (''email j'' @ a_acute @ '' cadastrado'')), demo_db)"
  using validateRegisterInput_counts_bytes
  by (simp add: Register_def occupied_def NewAuthService_def)

section \<open>Hashing and verifying a password\<close>






section \<open>A uniqueness violation on insert\<close>

text \<open>
  C2, as the code has it. When the input is well-formed, both existence checks answer
  "not found", the password is hashed and the insert of the account fails with any
  error, a uniqueness violation included, Register returns that error wrapped as
  \<open>erro ao criar usuario: ...\<close> (with the accent of the source). It is neither of the two
  conflict errors of the existence checks: the service has no translation of a
  constraint violation.
\<close>

theorem Register_insert_failure:
  assumes "validateRegisterInput input = None"
    and "GetUserByEmail (queries s) db (RegisterInput.Email input) = (Inl ErrNoRows, db1)"
    and "GetUserByUsername (queries s) db1 (RegisterInput.Username input) = (Inl ErrNoRows, db2)"
    and "HashPassword x (RegisterInput.Password input) = Inr passwordHash"
    and "CreateUser (queries s) db2
           \<lparr>CreateUserParams.Username = RegisterInput.Username input,
            CreateUserParams.Email = RegisterInput.Email input,
            CreateUserParams.PasswordHash = passwordHash\<rparr> = (Inl err, db3)"
  shows "Register x s db input =
           (Inl (Wrapf (''erro ao criar usu'' @ a_acute @ ''rio: '') err), db3) \<and>
         Wrapf (''erro ao criar usu'' @ a_acute @ ''rio: '') err \<notin> set conflict_errors"
  using assms by (simp add: Register_def conflict_errors_def)

lemma race_steps:
  "validateRegisterInput alice_again = None"
  "GetUserByEmail (queries racing_service) empty_db (RegisterInput.Email alice_again) =
     (Inl ErrNoRows, empty_db)"
  "GetUserByUsername (queries racing_service) empty_db (RegisterInput.Username alice_again) =
     (Inl ErrNoRows, concurrent_registration empty_db)"
  "HashPassword demo_packages (RegisterInput.Password alice_again) = Inr (demo_hash ''secret123'')"
  "CreateUser (queries racing_service) (concurrent_registration empty_db)
     \<lparr>CreateUserParams.Username = RegisterInput.Username alice_again,
      CreateUserParams.Email = RegisterInput.Email alice_again,
      CreateUserParams.PasswordHash = demo_hash ''secret123''\<rparr> =
     (Inl UniqueViolation, concurrent_registration empty_db)"
  by (simp_all add: validateRegisterInput_def contains_char_iff alice_again_def
      racing_service_def NewAuthService_def racing_store_def store_def getAccountByEmail_def
      getAccountByUsername_def createAccount_def concurrent_registration_def empty_db_def
      new_id_def new_timestamp_def HashPassword_def demo_packages_def Let_def)

theorem Register_insert_failure_witness:
  "Register demo_packages racing_service empty_db alice_again =
     (Inl (Wrapf (''erro ao criar usu'' @ a_acute @ ''rio: '') UniqueViolation),
      concurrent_registration empty_db) \<and>
   Wrapf (''erro ao criar usu'' @ a_acute @ ''rio: '') UniqueViolation \<notin> set conflict_errors"
  using Register_insert_failure [OF race_steps] .

text \<open>
  The claim as the spec words it fails in that race: the checks pass, the insert is
  refused for the duplicate username, and the answer is not a conflict error.
\<close>

theorem Register_insert_failure_counterexample:
  "fst (GetUserByEmail (queries racing_service) empty_db (RegisterInput.Email alice_again)) =
     Inl ErrNoRows \<and>
   fst (GetUserByUsername (queries racing_service) empty_db (RegisterInput.Username alice_again)) =
     Inl ErrNoRows \<and>
   fst (CreateUser (queries racing_service) (concurrent_registration empty_db)
          \<lparr>CreateUserParams.Username = RegisterInput.Username alice_again,
           CreateUserParams.Email = RegisterInput.Email alice_again,
           CreateUserParams.PasswordHash = demo_hash ''secret123''\<rparr>) = Inl UniqueViolation \<and>
   fst (Register demo_packages racing_service empty_db alice_again) \<notin> Inl ` set conflict_errors"
  using race_steps
  by (simp add: Register_def conflict_errors_def image_iff)

section \<open>Unknown account and wrong password\<close>

text \<open>
  C3, as the code has it. Of two Login calls that both carry a non-empty email and a
  non-empty password, one with an email for which the lookup finds no account and one
  with the email of an account whose stored hash the password does not verify against,
  both fail with the same error value \<open>credenciais invalidas\<close> (with the accent of the
  source).
\<close>

theorem Login_invalid_credentials:
  assumes "LoginInput.Email unknown \<noteq> []" and "LoginInput.Password unknown \<noteq> []"
    and "fst (GetUserByEmail (queries s) db (LoginInput.Email unknown)) = Inl ErrNoRows"
    and "LoginInput.Email wrong \<noteq> []" and "LoginInput.Password wrong \<noteq> []"
    and "fst (GetUserByEmail (queries s) db' (LoginInput.Email wrong)) = Inr user"
    and "\<not> CheckPassword x (LoginInput.Password wrong) (User.PasswordHash user)"
  shows "fst (Login x s db unknown) = Inl invalid_credentials \<and>
         fst (Login x s db' wrong) = Inl invalid_credentials"
  using assms
  by (auto simp: Login_def invalid_credentials_def split: prod.splits sum.splits)

lemma demo_lookups:
  "fst (GetUserByEmail (queries demo_service) demo_db ''nobody@example.com'') = Inl ErrNoRows"
  "fst (GetUserByEmail (queries demo_service) demo_db ''alice@example.com'') = Inr alice"
  "\<not> CheckPassword demo_packages ''wrong'' (User.PasswordHash alice)"
  by (simp_all add: demo_service_def NewAuthService_def store_def getAccountByEmail_def
      demo_db_def alice_def CheckPassword_def demo_packages_def demo_hash_def)

theorem Login_invalid_credentials_witness:
  "fst (Login demo_packages demo_service demo_db nobody_login) = Inl invalid_credentials \<and>
   fst (Login demo_packages demo_service demo_db wrong_login) = Inl invalid_credentials"
  using Login_invalid_credentials [of nobody_login demo_service demo_db wrong_login demo_db alice
      demo_packages] demo_lookups
  by (simp add: nobody_login_def wrong_login_def)

text \<open>
  Without the two conditions on the inputs the claim fails: a call for an unknown email
  with an empty password is refused before any lookup, with the error for missing
  fields.
\<close>

theorem Login_invalid_credentials_counterexample:
  "fst (GetUserByEmail (queries demo_service) demo_db (LoginInput.Email empty_password_login)) =
     Inl ErrNoRows \<and>
   fst (GetUserByEmail (queries demo_service) demo_db (LoginInput.Email wrong_login)) =
     Inr alice \<and>
   \<not> CheckPassword demo_packages (LoginInput.Password wrong_login) (User.PasswordHash alice) \<and>
   fst (Login demo_packages demo_service demo_db wrong_login) = Inl invalid_credentials \<and>
   fst (Login demo_packages demo_service demo_db empty_password_login) \<noteq>
     fst (Login demo_packages demo_service demo_db wrong_login)"
  by (simp add: empty_password_login_def wrong_login_def Login_def invalid_credentials_def
      demo_service_def NewAuthService_def store_def getAccountByEmail_def demo_db_def alice_def
      CheckPassword_def demo_packages_def demo_hash_def)

section \<open>Verification failures in RefreshToken\<close>

text \<open>
  C4, as the code has it. For a non-empty token on which the verification fails with
  the error \<open>err\<close> (malformed, signature mismatch, unexpected algorithm, expired or not
  yet valid), RefreshToken leaves the storage alone and returns no token pair but the
  error \<open>refresh token invalido: erro ao parsear refresh token: err\<close> (with the accent of
  the source): the reason of the failure is wrapped, not hidden.
\<close>

theorem RefreshToken_verification_failure:
  assumes "RefreshTokenInput.RefreshToken input \<noteq> []"
    and "ParseWithClaims (jwt_parse_RegisteredClaims x) (jwt_verify x)
           (RefreshTokenInput.RefreshToken input) (keyFunc (RefreshSecret (JWT (cfg s)))) =
         Inl err"
  shows "RefreshToken x s db input =
           (Inl (Wrapf (''refresh token inv'' @ a_acute @ ''lido: '')
                   (Wrapf ''erro ao parsear refresh token: '' err)), db)"
  using assms by (simp add: RefreshToken_def ValidateRefreshToken_def)

lemma demo_parse_failures:
  "ParseWithClaims (jwt_parse_RegisteredClaims demo_packages) (jwt_verify demo_packages)
     (RefreshTokenInput.RefreshToken garbage_refresh)
     (keyFunc (RefreshSecret (JWT (cfg demo_service)))) = Inl (TokenError MalformedToken)"
  "ParseWithClaims (jwt_parse_RegisteredClaims demo_packages) (jwt_verify demo_packages)
     (RefreshTokenInput.RefreshToken expired_refresh)
     (keyFunc (RefreshSecret (JWT (cfg demo_service)))) = Inl (TokenError Expired)"
  by (simp_all add: ParseWithClaims_def demo_packages_def keyFunc_def SigningMethodHS256_def
      garbage_refresh_def expired_refresh_def)

theorem RefreshToken_verification_failure_witness:
  "RefreshToken demo_packages demo_service demo_db expired_refresh =
     (Inl (Wrapf (''refresh token inv'' @ a_acute @ ''lido: '')
             (Wrapf ''erro ao parsear refresh token: '' (TokenError Expired))), demo_db)"
  using RefreshToken_verification_failure
      [of expired_refresh demo_packages demo_service "TokenError Expired" demo_db]
    demo_parse_failures
  by (simp add: expired_refresh_def)

text \<open>
  Two tokens that fail for different reasons, one malformed and one expired, get
  different errors from RefreshToken.
\<close>

theorem RefreshToken_verification_failure_counterexample:
  "ParseWithClaims (jwt_parse_RegisteredClaims demo_packages) (jwt_verify demo_packages)
     (RefreshTokenInput.RefreshToken garbage_refresh)
     (keyFunc (RefreshSecret (JWT (cfg demo_service)))) = Inl (TokenError MalformedToken) \<and>
   ParseWithClaims (jwt_parse_RegisteredClaims demo_packages) (jwt_verify demo_packages)
     (RefreshTokenInput.RefreshToken expired_refresh)
     (keyFunc (RefreshSecret (JWT (cfg demo_service)))) = Inl (TokenError Expired) \<and>
   fst (RefreshToken demo_packages demo_service demo_db garbage_refresh) \<noteq>
   fst (RefreshToken demo_packages demo_service demo_db expired_refresh)"
  using demo_parse_failures
  by (simp add: RefreshToken_def ValidateRefreshToken_def garbage_refresh_def
      expired_refresh_def)

section \<open>Algorithm confusion\<close>

lemma keyFunc_refuses: "\<not> is_HMAC (Method token) \<Longrightarrow> \<exists>err. keyFunc secret token = Inl err"
  by (cases "Method token") (simp_all add: keyFunc_def)

lemma ParseWithClaims_refuses:
  assumes "\<forall>token. parse t = Inr token \<longrightarrow> \<not> is_HMAC (Method token)"
  shows "\<exists>err. ParseWithClaims parse verify t (keyFunc secret) = Inl err"
proof (cases "parse t")
  case (Inl f)
  then show ?thesis by (simp add: ParseWithClaims_def)
next
  case (Inr token)
  with assms obtain err where "keyFunc secret token = Inl err"
    using keyFunc_refuses by blast
  with Inr show ?thesis by (simp add: ParseWithClaims_def)
qed

text \<open>
  C6. For a token string whose header names a signing method outside the HMAC family,
  so that whenever the library parses the string the token's method is not an HMAC
  method, both \<open>ValidateAccessToken\<close> and \<open>ValidateRefreshToken\<close> return an error, and
  neither claims nor a subject. This holds for every parser and every verifier, under
  every secret: the payload, the expiry and what the verifier would have said play no
  part.
\<close>

theorem non_HMAC_rejected:
  assumes "\<forall>token. jwt_parse_Claims x t = Inr token \<longrightarrow> \<not> is_HMAC (Method token)"
    and "\<forall>token. jwt_parse_RegisteredClaims x t = Inr token \<longrightarrow> \<not> is_HMAC (Method token)"
  shows "(\<exists>err. ValidateAccessToken x t secret = Inl err) \<and>
         (\<exists>err. ValidateRefreshToken x t secret' = Inl err)"
proof
  obtain err where
    "ParseWithClaims (jwt_parse_Claims x) (jwt_verify x) t (keyFunc secret) = Inl err"
    using ParseWithClaims_refuses [of "jwt_parse_Claims x" t "jwt_verify x" secret] assms(1)
    by blast
  then show "\<exists>err. ValidateAccessToken x t secret = Inl err"
    by (simp add: ValidateAccessToken_def)
next
  obtain err where
    "ParseWithClaims (jwt_parse_RegisteredClaims x) (jwt_verify x) t (keyFunc secret') = Inl err"
    using ParseWithClaims_refuses [of "jwt_parse_RegisteredClaims x" t "jwt_verify x" secret']
      assms(2)
    by blast
  then show "\<exists>err. ValidateRefreshToken x t secret' = Inl err"
    by (simp add: ValidateRefreshToken_def)
qed

theorem non_HMAC_rejected_witness:
  "(\<exists>token. jwt_parse_Claims demo_packages ''unsigned'' = Inr token \<and>
      Method token = SigningMethodNone) \<and>
   (\<exists>token. jwt_parse_RegisteredClaims demo_packages ''unsigned'' = Inr token \<and>
      Method token = SigningMethodNone) \<and>
   jwt_verify demo_packages ''unsigned'' SigningMethodNone [] = None \<and>
   (\<exists>err. ValidateAccessToken demo_packages ''unsigned'' ''access-secret'' = Inl err) \<and>
   (\<exists>err. ValidateRefreshToken demo_packages ''unsigned'' ''refresh-secret'' = Inl err)"
proof -
  have "\<forall>token. jwt_parse_Claims demo_packages ''unsigned'' = Inr token \<longrightarrow>
      \<not> is_HMAC (Method token)"
    by (auto simp: demo_packages_def)
  moreover have "\<forall>token. jwt_parse_RegisteredClaims demo_packages ''unsigned'' = Inr token \<longrightarrow>
      \<not> is_HMAC (Method token)"
    by (auto simp: demo_packages_def)
  ultimately show ?thesis
    using non_HMAC_rejected [of demo_packages "''unsigned''" "''access-secret''"
        "''refresh-secret''"]
    by (simp add: demo_packages_def)
qed

section \<open>Revocation and refresh over the storage of the spec\<close>

lemma find_filter_None: "find P (filter (\<lambda>r. \<not> P r) xs) = None"
  by (induction xs) auto

lemma deleteRefreshToken_success:
  assumes "deleteRefreshToken db token = (None, db')"
  shows "available db' \<and> find (\<lambda>r. RefreshSession.Token r = token) (sessions db') = None"
  using assms find_filter_None [of "\<lambda>r. RefreshSession.Token r = token" "sessions db"]
  by (auto simp: deleteRefreshToken_def deleteByToken_def split: if_splits option.splits)

lemma Logout_success:
  "Logout s db t = (None, db') \<longleftrightarrow>
     t \<noteq> [] \<and> DeleteRefreshToken (queries s) db t = (None, db')"
  by (auto simp: Logout_def split: prod.splits option.splits)

lemma getByToken_found:
  assumes "getByToken db token = (Inr r, db')"
  shows "db' = db \<and> RefreshSession.Token r = token \<and> r \<in> set (sessions db)"
proof -
  from assms have "find (\<lambda>r. RefreshSession.Token r = token) (sessions db) = Some r"
    and "db' = db"
    by (auto simp: getByToken_def split: if_splits option.splits)
  then show ?thesis
    by (auto simp: find_Some_iff)
qed

lemma getAccountById_found:
  assumes "getAccountById db uid = (Inr u, db')"
  shows "db' = db \<and> u \<in> set (users db)"
proof -
  from assms have "find (\<lambda>u. User.ID u = uid) (users db) = Some u" and "db' = db"
    by (auto simp: getAccountById_def split: if_splits option.splits)
  then show ?thesis
    by (auto simp: find_Some_iff)
qed

lemma demo_valid:
  "ValidateRefreshToken demo_packages (RefreshTokenInput.RefreshToken alice_refresh)
     (RefreshSecret (JWT (cfg demo_service))) = Inr ''alice-id''"
  by (simp add: ValidateRefreshToken_def ParseWithClaims_def demo_packages_def keyFunc_def
      SigningMethodHS256_def alice_refresh_def)

lemma demo_logout:
  "Logout demo_service demo_db (RefreshTokenInput.RefreshToken alice_refresh) =
     (None, demo_db\<lparr>sessions := []\<rparr>)"
  by (simp add: Logout_def demo_service_def NewAuthService_def store_def deleteRefreshToken_def
      deleteByToken_def demo_db_def alice_session_def alice_refresh_def)

lemma demo_refresh:
  "RefreshToken demo_packages demo_service demo_db alice_refresh =
     (Inr \<lparr>AccessToken = ''access.alice-id'', TokenPair.RefreshToken = ''refresh.alice-id''\<rparr>,
      demo_db)"
  using demo_valid
  by (simp add: RefreshToken_def alice_refresh_def demo_service_def NewAuthService_def
      store_def getByToken_def getAccountById_def demo_db_def alice_session_def alice_def
      GenerateAccessToken_def UUIDToString_def demo_packages_def)

text \<open>
  C1. Over the storage of the spec: when \<open>Logout\<close> of a token has returned without
  error, a \<open>RefreshToken\<close> call with the same token on the resulting storage returns an
  error and no token pair, whatever the token library says about the token. Where the
  token passes the cryptographic verification, the error is the one of the lookup in
  the store, \<open>refresh token invalido ou expirado\<close> (with the accent of the source).
\<close>

theorem Logout_then_RefreshToken:
  assumes "queries s = store"
    and "Logout s db (RefreshTokenInput.RefreshToken input) = (None, db')"
  shows "(\<exists>err. RefreshToken x s db' input = (Inl err, db')) \<and>
         (\<forall>userID. ValidateRefreshToken x (RefreshTokenInput.RefreshToken input)
                      (RefreshSecret (JWT (cfg s))) = Inr userID \<longrightarrow>
            RefreshToken x s db' input = (Inl revoked, db'))"
proof -
  from assms have ne: "RefreshTokenInput.RefreshToken input \<noteq> []"
    and "deleteRefreshToken db (RefreshTokenInput.RefreshToken input) = (None, db')"
    by (simp_all add: Logout_success store_def)
  then have "getByToken db' (RefreshTokenInput.RefreshToken input) = (Inl ErrNoRows, db')"
    using deleteRefreshToken_success by (fastforce simp: getByToken_def)
  with assms(1) ne show ?thesis
    by (auto simp: RefreshToken_def store_def revoked_def split: sum.splits)
qed

theorem Logout_then_RefreshToken_witness:
  "fst (RefreshToken demo_packages demo_service demo_db alice_refresh) =
     Inr \<lparr>AccessToken = ''access.alice-id'', TokenPair.RefreshToken = ''refresh.alice-id''\<rparr> \<and>
   Logout demo_service demo_db (RefreshTokenInput.RefreshToken alice_refresh) =
     (None, demo_db\<lparr>sessions := []\<rparr>) \<and>
   ValidateRefreshToken demo_packages (RefreshTokenInput.RefreshToken alice_refresh)
     (RefreshSecret (JWT (cfg demo_service))) = Inr ''alice-id'' \<and>
   RefreshToken demo_packages demo_service (demo_db\<lparr>sessions := []\<rparr>) alice_refresh =
     (Inl revoked, demo_db\<lparr>sessions := []\<rparr>)"
proof -
  have q: "queries demo_service = store"
    by (simp add: demo_service_def NewAuthService_def)
  from Logout_then_RefreshToken [OF q demo_logout, of demo_packages] demo_valid demo_logout
    demo_refresh
  show ?thesis
    by simp
qed

text \<open>
  C7. Over the storage of the spec: when \<open>RefreshToken\<close> succeeds, the refresh token of
  the returned pair is the input token, the storage comes back exactly as it went in
  (so the session row of the token is still there, unchanged, and no row was added or
  removed), and the access token of the pair is the one that \<open>GenerateAccessToken\<close>
  has just issued for an account of the storage.
\<close>

theorem RefreshToken_no_rotation:
  assumes "queries s = store" and "RefreshToken x s db input = (Inr pair, db')"
  shows "TokenPair.RefreshToken pair = RefreshTokenInput.RefreshToken input \<and>
         db' = db \<and>
         (\<exists>r \<in> set (sessions db').
            RefreshSession.Token r = RefreshTokenInput.RefreshToken input) \<and>
         (\<exists>user \<in> set (users db).
            GenerateAccessToken x (uuid_New x 0) (UUIDToString x (User.ID user))
              (User.Username user) (User.Email user)
              (AccessSecret (JWT (cfg s))) (AccessExpiration (JWT (cfg s))) =
            Inr (AccessToken pair))"
proof -
  let ?t = "RefreshTokenInput.RefreshToken input"
  from assms obtain tokenRecord db1 userUUID user db2 accessToken where
    steps: "getByToken db ?t = (Inr tokenRecord, db1)"
      "getAccountById db1 userUUID = (Inr user, db2)"
      "GenerateAccessToken x (uuid_New x 0) (UUIDToString x (User.ID user))
         (User.Username user) (User.Email user)
         (AccessSecret (JWT (cfg s))) (AccessExpiration (JWT (cfg s))) = Inr accessToken"
      "pair = \<lparr>AccessToken = accessToken,
               TokenPair.RefreshToken = RefreshSession.Token tokenRecord\<rparr>"
      "db' = db2"
    by (auto simp: RefreshToken_def store_def split: if_splits sum.splits prod.splits)
  from steps(1) have r: "db1 = db" "RefreshSession.Token tokenRecord = ?t"
    "tokenRecord \<in> set (sessions db)"
    using getByToken_found by blast+
  from steps(2) r(1) have u: "db2 = db" "user \<in> set (users db)"
    using getAccountById_found by blast+
  from steps r u show ?thesis
    by auto
qed

theorem RefreshToken_no_rotation_witness:
  "RefreshToken demo_packages demo_service demo_db alice_refresh =
     (Inr \<lparr>AccessToken = ''access.alice-id'', TokenPair.RefreshToken = ''refresh.alice-id''\<rparr>,
      demo_db) \<and>
   ''refresh.alice-id'' = RefreshTokenInput.RefreshToken alice_refresh \<and>
   (\<exists>r \<in> set (sessions demo_db).
      RefreshSession.Token r = RefreshTokenInput.RefreshToken alice_refresh)"
proof -
  have q: "queries demo_service = store"
    by (simp add: demo_service_def NewAuthService_def)
  from RefreshToken_no_rotation [OF q demo_refresh] demo_refresh show ?thesis
    by simp
qed

text \<open>
  C9. Over the storage of the spec: for a non-empty token that no row of a reachable
  storage carries, \<open>Logout\<close> returns without error and leaves the storage as it was.
  \<open>Logout\<close> fails exactly when the token is empty or the storage fails.
\<close>

theorem Logout_unknown_token:
  assumes "queries s = store"
  shows "(t \<noteq> [] \<and> available db \<and>
          find (\<lambda>r. RefreshSession.Token r = t) (sessions db) = None \<longrightarrow>
            Logout s db t = (None, db)) \<and>
         (fst (Logout s db t) \<noteq> None \<longleftrightarrow> t = [] \<or> \<not> available db)"
  using assms
  by (auto simp: Logout_def store_def deleteRefreshToken_def deleteByToken_def
      split: option.splits)

theorem Logout_unknown_token_witness:
  "fst (GetRefreshToken (queries demo_service) demo_db ''refresh.unknown'') = Inl ErrNoRows \<and>
   Logout demo_service demo_db ''refresh.unknown'' = (None, demo_db) \<and>
   fst (Logout demo_service demo_db []) \<noteq> None \<and>
   fst (Logout demo_service (demo_db\<lparr>available := False\<rparr>) ''refresh.unknown'') \<noteq> None"
proof -
  have q: "queries demo_service = store"
    by (simp add: demo_service_def NewAuthService_def)
  show ?thesis
    using Logout_unknown_token [OF q, of "''refresh.unknown''" demo_db]
      Logout_unknown_token [OF q, of "[]" demo_db]
      Logout_unknown_token [OF q, of "''refresh.unknown''" "demo_db\<lparr>available := False\<rparr>"]
    by (simp add: demo_db_def alice_session_def demo_service_def NewAuthService_def store_def
        getByToken_def)
qed

section \<open>The substring helper on equal strings\<close>

text \<open>
  C10. The string \<open>@\<close> occurs in the string \<open>@\<close>, and \<open>contains\<close> answers false: its
  conjunct \<open>s != substr\<close> excludes the pair of equal strings. For all other pairs
  \<open>contains_iff\<close> shows that \<open>contains\<close> is the substring test.
\<close>

theorem contains_equal_strings: "sublist ''@'' ''@'' \<and> contains ''@'' ''@'' = False"
  by (simp add: contains_def)

end
